theory Spec2Isabelle
  imports Complex_Main "HOL-Library.AList"
begin

section \<open>Data model (models.py)\<close>

text \<open>
  Identifiers are the integer primary keys of the tables. Times are seconds since the
  epoch; each request reads the clock once (\<open>datetime.utcnow()\<close>) and that reading is
  the parameter \<open>now\<close> of the handler. Amounts are Python integers.
\<close>

type_synonym uid = nat
type_synonym time = int

datatype exn = ValueError string | NameError string | AttributeError string

text \<open>\<open>WalletTransaction\<close>: wallet id, amount, type (\<open>'credit'\<close> or \<open>'debit'\<close>), description.\<close>

record wallet_transaction =
  wt_wallet_id :: nat
  wt_amount :: int
  wt_type :: string
  wt_description :: string

record wallet =
  w_id :: nat
  balance :: int
  total_earned :: int
  total_withdrawn :: int

text \<open>
  \<open>Wallet.add_funds\<close> and \<open>Wallet.deduct_funds\<close> mutate the wallet and add one transaction
  row to the session; the model returns the updated wallet and the new row.
\<close>

definition add_funds :: "wallet \<Rightarrow> int \<Rightarrow> string \<Rightarrow> wallet \<times> wallet_transaction" where
  "add_funds w amount description =
     (w\<lparr>balance := balance w + amount, total_earned := total_earned w + amount\<rparr>,
      \<lparr>wt_wallet_id = w_id w, wt_amount = amount, wt_type = ''credit'',
       wt_description = description\<rparr>)"

definition deduct_funds :: "wallet \<Rightarrow> int \<Rightarrow> string \<Rightarrow> exn + wallet \<times> wallet_transaction" where
  "deduct_funds w amount description =
     (if balance w < amount then Inl (ValueError ''Insufficient funds'')
      else Inr (w\<lparr>balance := balance w - amount\<rparr>,
                \<lparr>wt_wallet_id = w_id w, wt_amount = amount, wt_type = ''debit'',
                 wt_description = description\<rparr>))"

text \<open>
  A ledger is a wallet with the transaction rows written for it so far. A sequence of
  credit and debit calls runs one call after the other; a debit that raises leaves the
  ledger as it was (the caller reports the error and nothing is written).
\<close>

datatype wallet_op = Credit int string | Debit int string

fun op_amount :: "wallet_op \<Rightarrow> int" where
  "op_amount (Credit a d) = a"
| "op_amount (Debit a d) = a"

fun apply_wallet_op :: "wallet \<times> wallet_transaction list \<Rightarrow> wallet_op \<Rightarrow>
    wallet \<times> wallet_transaction list" where
  "apply_wallet_op (w, txs) (Credit a d) =
     (case add_funds w a d of (w', tx) \<Rightarrow> (w', txs @ [tx]))"
| "apply_wallet_op (w, txs) (Debit a d) =
     (case deduct_funds w a d of
        Inl e \<Rightarrow> (w, txs)
      | Inr (w', tx) \<Rightarrow> (w', txs @ [tx]))"

fun run_wallet_ops :: "wallet \<times> wallet_transaction list \<Rightarrow> wallet_op list \<Rightarrow>
    wallet \<times> wallet_transaction list" where
  "run_wallet_ops l [] = l"
| "run_wallet_ops l (x # xs) = run_wallet_ops (apply_wallet_op l x) xs"

text \<open>The other tables of models.py, with the columns the core logic reads or writes.\<close>

record membership_tier =
  t_name :: string
  price :: int
  daily_missions :: int
  referral_levels :: int
  t_is_active :: bool

record membership =
  m_tier_id :: nat
  start_date :: time
  end_date :: time
  m_is_active :: bool
  payment_id :: string

record user =
  username :: string
  u_membership :: "membership option"
  u_wallet :: "wallet option"

record mission =
  ms_title :: string
  reward :: int
  ms_type :: string
  duration :: int
  ms_is_active :: bool

record mission_completion =
  mc_user_id :: uid
  mc_mission_id :: nat
  mc_reward :: int
  mc_completed_at :: time
  mc_proof :: string

text \<open>
  \<open>referred_id\<close> is optional: a row can be written with the value \<open>None\<close> (SQL NULL),
  see \<open>register_referrals\<close> below.
\<close>

record referral =
  referrer_id :: uid
  referred_id :: "uid option"
  level :: int

record referral_commission =
  rc_referral_id :: nat
  rc_amount :: int
  rc_description :: string

record withdrawal =
  wd_user_id :: uid
  wd_amount :: int
  wd_method :: string
  wd_status :: string
  wd_account_info :: string
  wd_processed_at :: "time option"

record payment =
  p_user_id :: uid
  p_amount :: int
  p_method :: string
  p_status :: string
  p_reference :: string
  p_description :: string
  p_completed_at :: "time option"

text \<open>
  The committed database. Tables read by primary key (\<open>Model.query.get(id)\<close>) are
  association lists from the key to the row, in insertion order: \<open>map_of\<close> is the lookup
  and \<open>AList.update\<close> writes a changed row back. Withdrawals are numbered by their
  position in the table. \<open>user.membership\<close> and \<open>user.wallet\<close> (one-to-one
  relationships) are fields of the user row.
\<close>

record db =
  users :: "(uid \<times> user) list"
  tiers :: "(nat \<times> membership_tier) list"
  missions :: "(nat \<times> mission) list"
  completions :: "mission_completion list"
  referrals :: "referral list"
  commissions :: "referral_commission list"
  transactions :: "wallet_transaction list"
  withdrawals :: "withdrawal list"
  payments :: "payment list"

text \<open>
  What a handler returns: an HTTP status with the \<open>error\<close> or \<open>message\<close> text of the
  body, or an exception that nothing catches. The database returned with it is the
  committed one: a handler that returns an error or raises before \<open>db.session.commit()\<close>
  leaves the database as it found it.
\<close>

datatype response = Resp nat string | Raise exn

definition wallet_of :: "db \<Rightarrow> uid \<Rightarrow> wallet option" where
  "wallet_of d u = (case map_of (users d) u of None \<Rightarrow> None | Some usr \<Rightarrow> u_wallet usr)"

section \<open>Withdrawals (wallet/routes.py, admin/routes.py)\<close>

text \<open>
  \<open>request_withdrawal\<close>, wallet/routes.py lines 78-131. The amount is an integer here, so
  the \<open>isinstance(amount, int)\<close> test holds; the three fields are present.
\<close>

definition request_withdrawal :: "db \<Rightarrow> uid \<Rightarrow> int \<Rightarrow> string \<Rightarrow> string \<Rightarrow> response \<times> db" where
  "request_withdrawal d u amount method account_info =
     (case map_of (users d) u of
        None \<Rightarrow> (Resp 404 ''Wallet not found'', d)
      | Some usr \<Rightarrow>
          (case u_wallet usr of
             None \<Rightarrow> (Resp 404 ''Wallet not found'', d)
           | Some w \<Rightarrow>
               if amount \<le> 0 then (Resp 400 ''Invalid amount'', d)
               else if balance w < amount then (Resp 400 ''Insufficient balance'', d)
               else if method \<notin> set [''mpesa'', ''bank'', ''paypal''] then
                 (Resp 400 ''Invalid method. Must be one of: ['mpesa', 'bank', 'paypal']'', d)
               else
                 (case deduct_funds w amount (''Withdrawal request via '' @ method) of
                    Inl (ValueError msg) \<Rightarrow> (Resp 400 msg, d)
                  | Inl e \<Rightarrow> (Raise e, d)
                  | Inr (w', tx) \<Rightarrow>
                      (Resp 201 ''Withdrawal request submitted successfully'',
                       d\<lparr>users := AList.update u (usr\<lparr>u_wallet := Some w'\<rparr>) (users d),
                         transactions := transactions d @ [tx],
                         withdrawals := withdrawals d @
                           [\<lparr>wd_user_id = u, wd_amount = amount, wd_method = method,
                             wd_status = ''pending'', wd_account_info = account_info,
                             wd_processed_at = None\<rparr>]\<rparr>))))"

text \<open>
  The refund of \<open>process_withdrawal\<close>, admin/routes.py lines 404-411:
  \<open>user = User.query.get(...); if user and user.wallet: user.wallet.add_funds(...)\<close>.
\<close>

definition refund_wallet :: "db \<Rightarrow> uid \<Rightarrow> int \<Rightarrow> db" where
  "refund_wallet d u amount =
     (case map_of (users d) u of
        None \<Rightarrow> d
      | Some usr \<Rightarrow>
          (case u_wallet usr of
             None \<Rightarrow> d
           | Some w \<Rightarrow>
               (case add_funds w amount ''Refund for failed withdrawal'' of
                  (w', tx) \<Rightarrow>
                    d\<lparr>users := AList.update u (usr\<lparr>u_wallet := Some w'\<rparr>) (users d),
                      transactions := transactions d @ [tx]\<rparr>)))"

text \<open>
  \<open>process_withdrawal\<close>, admin/routes.py lines 385-420. \<open>status_field\<close> is
  \<open>data['status']\<close> when the body has the key. The assignment
  \<open>withdrawal.status = new_status\<close> stands after the guarded block, outside it.
\<close>

definition process_withdrawal :: "db \<Rightarrow> nat \<Rightarrow> string option \<Rightarrow> time \<Rightarrow> response \<times> db" where
  "process_withdrawal d wid status_field now =
     (if length (withdrawals d) \<le> wid then (Resp 404 ''Withdrawal not found'', d)
      else
        (case status_field of
           None \<Rightarrow> (Resp 200 ''Withdrawal updated successfully'', d)
         | Some new_status \<Rightarrow>
             if new_status \<notin> set [''pending'', ''completed'', ''failed''] then
               (Resp 400 ''Invalid status'', d)
             else
               (let wd = withdrawals d ! wid;
                    resolving = (new_status \<noteq> ''pending'' \<and> wd_status wd = ''pending'');
                    wd1 = (if resolving then wd\<lparr>wd_processed_at := Some now\<rparr> else wd);
                    d1 = (if resolving \<and> new_status = ''failed''
                          then refund_wallet d (wd_user_id wd) (wd_amount wd) else d)
                in (Resp 200 ''Withdrawal updated successfully'',
                    d1\<lparr>withdrawals := (withdrawals d1)[wid := wd1\<lparr>wd_status := new_status\<rparr>]\<rparr>))))"

section \<open>Missions (mission/utils.py, mission/routes.py)\<close>

text \<open>
  The value \<open>json.loads\<close> returns. A float is its exact value (every finite double is a
  rational) or one of the three special values; a dict is an association list read with
  \<open>map_of\<close>. \<open>json.loads\<close> itself belongs to the Python library, not to this
  repository: the validator takes it as the parameter \<open>loads\<close>, with \<open>None\<close> when it
  raises.
\<close>

datatype pyfloat = Finite rat | PosInf | NegInf | NaN

datatype json =
    JNull
  | JBool bool
  | JInt int
  | JFloat pyfloat
  | JString string
  | JArray "json list"
  | JObject "(string \<times> json) list"

text \<open>\<open>x.get(key, default)\<close>: only a dict has \<open>get\<close>; \<open>None\<close> is the AttributeError.\<close>

fun dict_get :: "json \<Rightarrow> string \<Rightarrow> json \<Rightarrow> json option" where
  "dict_get (JObject kvs) k dflt = (case map_of kvs k of None \<Rightarrow> Some dflt | Some v \<Rightarrow> Some v)"
| "dict_get _ k dflt = None"

text \<open>
  \<open>x >= t\<close> for a finite float \<open>t\<close>: Python compares an int or a bool with a float by
  exact value, a comparison with NaN is false, and any other type raises TypeError
  (\<open>None\<close>).
\<close>

fun ge_float :: "json \<Rightarrow> rat \<Rightarrow> bool option" where
  "ge_float (JInt v) t = Some (t \<le> of_int v)"
| "ge_float (JBool b) t = Some (t \<le> (if b then 1 else 0))"
| "ge_float (JFloat (Finite q)) t = Some (t \<le> q)"
| "ge_float (JFloat PosInf) t = Some True"
| "ge_float (JFloat NegInf) t = Some False"
| "ge_float (JFloat NaN) t = Some False"
| "ge_float _ t = None"

text \<open>Truth value of a JSON value, as \<open>bool(x)\<close> gives it.\<close>

fun truthy :: "json \<Rightarrow> bool" where
  "truthy JNull = False"
| "truthy (JBool b) = b"
| "truthy (JInt v) = (v \<noteq> 0)"
| "truthy (JFloat (Finite q)) = (q \<noteq> 0)"
| "truthy (JFloat _) = True"
| "truthy (JString s) = (s \<noteq> [])"
| "truthy (JArray xs) = (xs \<noteq> [])"
| "truthy (JObject kvs) = (kvs \<noteq> [])"

text \<open>\<open>len(x)\<close>; \<open>None\<close> is the TypeError for a value without a length.\<close>

fun py_len :: "json \<Rightarrow> nat option" where
  "py_len (JString s) = Some (length s)"
| "py_len (JArray xs) = Some (length xs)"
| "py_len (JObject kvs) = Some (length (remdups (map fst kvs)))"
| "py_len _ = None"

text \<open>
  \<open>mission.duration * 0.9\<close> is a product of doubles: the integer is converted to a
  double, multiplied by the double nearest to 0.9, which is
  \<open>8106479329266893 / 2 ^ 53\<close>, and the exact product is rounded to 53 significant
  bits, ties to even. \<open>round53\<close> is that rounding on a natural number (of any unit
  \<open>2 ^ k\<close>). The duration is a database integer, far from the exponent range's ends.
\<close>

fun bit_length :: "nat \<Rightarrow> nat" where
  "bit_length n = (if n = 0 then 0 else Suc (bit_length (n div 2)))"

definition round53 :: "nat \<Rightarrow> nat" where
  "round53 n =
     (if n < 2 ^ 53 then n
      else
        (let s = bit_length n - 53; q = n div 2 ^ s; r = n mod 2 ^ s; h = 2 ^ (s - 1)
         in (if h < r \<or> (r = h \<and> odd q) then q + 1 else q) * 2 ^ s))"

definition ad_threshold :: "int \<Rightarrow> rat" where
  "ad_threshold dur =
     of_int (sgn dur * int (round53 (round53 (nat \<bar>dur\<bar>) * 8106479329266893))) / 2 ^ 53"

text \<open>\<open>validate_mission_completion\<close>, mission/utils.py lines 5-45. Each \<open>try\<close> block
  returns False on any exception.\<close>

definition validate_mission_completion :: "(string \<Rightarrow> json option) \<Rightarrow> mission \<Rightarrow> string \<Rightarrow> bool" where
  "validate_mission_completion loads m proof =
     (if proof = [] then False
      else if ms_type m = ''ad'' then
        (case loads proof of
           None \<Rightarrow> False
         | Some proof_data \<Rightarrow>
             (case dict_get proof_data ''duration'' (JInt 0) of
                None \<Rightarrow> False
              | Some view_duration \<Rightarrow>
                  (case ge_float view_duration (ad_threshold (duration m)) of
                     None \<Rightarrow> False
                   | Some b \<Rightarrow> b)))
      else if ms_type m = ''social'' then
        (case loads proof of
           None \<Rightarrow> False
         | Some proof_data \<Rightarrow>
             (case dict_get proof_data ''engagement_id'' JNull of
                None \<Rightarrow> False
              | Some engagement_id \<Rightarrow>
                  (case dict_get proof_data ''platform'' JNull of
                     None \<Rightarrow> False
                   | Some platform \<Rightarrow> truthy engagement_id \<and> truthy platform)))
      else if ms_type m = ''survey'' then
        (case loads proof of
           None \<Rightarrow> False
         | Some proof_data \<Rightarrow>
             (case dict_get proof_data ''responses'' (JArray []) of
                None \<Rightarrow> False
              | Some responses \<Rightarrow>
                  (case py_len responses of
                     None \<Rightarrow> False
                   | Some n \<Rightarrow> 0 < n)))
      else True)"

text \<open>\<open>Membership.is_expired\<close> and the calendar day of a time (\<open>.date()\<close>).\<close>

definition is_expired :: "membership \<Rightarrow> time \<Rightarrow> bool" where
  "is_expired mem now = (end_date mem < now)"

definition date_of :: "time \<Rightarrow> int" where
  "date_of t = t div 86400"

text \<open>The two queries of \<open>complete_mission\<close> on the completions of the day.\<close>

definition already_completed :: "db \<Rightarrow> uid \<Rightarrow> nat \<Rightarrow> int \<Rightarrow> bool" where
  "already_completed d u mission_id today =
     list_ex (\<lambda>c. mc_user_id c = u \<and> mc_mission_id c = mission_id
                  \<and> date_of (mc_completed_at c) = today) (completions d)"

definition completed_today :: "db \<Rightarrow> uid \<Rightarrow> int \<Rightarrow> nat" where
  "completed_today d u today =
     length (filter (\<lambda>c. mc_user_id c = u \<and> date_of (mc_completed_at c) = today)
       (completions d))"

text \<open>
  \<open>complete_mission\<close>, mission/routes.py lines 99-165. \<open>proof\<close> is the string of the
  body's \<open>proof\<close> field. A membership whose tier row is missing and a user without a
  wallet make the attribute access raise.
\<close>

definition complete_mission ::
  "(string \<Rightarrow> json option) \<Rightarrow> db \<Rightarrow> uid \<Rightarrow> nat \<Rightarrow> string \<Rightarrow> time \<Rightarrow> response \<times> db" where
  "complete_mission loads d u mission_id proof now =
     (case map_of (users d) u of
        None \<Rightarrow> (Resp 404 ''User not found'', d)
      | Some usr \<Rightarrow>
          (case u_membership usr of
             None \<Rightarrow> (Resp 403 ''Active membership required'', d)
           | Some mem \<Rightarrow>
               if m_is_active mem \<and> \<not> is_expired mem now then
                 (case map_of (missions d) mission_id of
                    None \<Rightarrow> (Resp 404 ''Mission not found'', d)
                  | Some ms \<Rightarrow>
                      if ms_is_active ms then
                        (if already_completed d u mission_id (date_of now) then
                           (Resp 400 ''Mission already completed today'', d)
                         else
                           (case map_of (tiers d) (m_tier_id mem) of
                              None \<Rightarrow> (Raise (AttributeError ''daily_missions''), d)
                            | Some tier \<Rightarrow>
                                if daily_missions tier \<le> int (completed_today d u (date_of now)) then
                                  (Resp 400 ''Daily mission limit reached'', d)
                                else if validate_mission_completion loads ms proof then
                                  (case u_wallet usr of
                                     None \<Rightarrow> (Raise (AttributeError ''add_funds''), d)
                                   | Some w \<Rightarrow>
                                       (case add_funds w (reward ms)
                                               (''Reward for completing mission: '' @ ms_title ms) of
                                          (w', tx) \<Rightarrow>
                                            (Resp 200 ''Mission completed successfully'',
                                             d\<lparr>users := AList.update u (usr\<lparr>u_wallet := Some w'\<rparr>) (users d),
                                               transactions := transactions d @ [tx],
                                               completions := completions d @
                                                 [\<lparr>mc_user_id = u, mc_mission_id = mission_id,
                                                   mc_reward = reward ms, mc_completed_at = now,
                                                   mc_proof = proof\<rparr>]\<rparr>)))
                                else (Resp 400 ''Invalid mission completion proof'', d)))
                      else (Resp 404 ''Mission not found'', d))
               else (Resp 403 ''Active membership required'', d)))"



section \<open>Referral edges at registration (auth/routes.py)\<close>








section \<open>Payment completion (payment/routes.py, wallet/utils.py)\<close>

text \<open>
  \<open>description.split(': ')[1]\<close>: \<open>split_first\<close> cuts a string at the first \<open>': '\<close>;
  the tier name is what stands between the first separator and the next one (or the
  end). \<open>None\<close> when \<open>': '\<close> does not occur.
\<close>

fun split_first :: "string \<Rightarrow> (string \<times> string) option" where
  "split_first [] = None"
| "split_first [c] = None"
| "split_first (c # c' # cs) =
     (if c = CHR '':'' \<and> c' = CHR '' '' then Some ([], cs)
      else (case split_first (c' # cs) of
              None \<Rightarrow> None
            | Some (before, rest) \<Rightarrow> Some (c # before, rest)))"

definition tier_name_of :: "string \<Rightarrow> string option" where
  "tier_name_of description =
     (case split_first description of
        None \<Rightarrow> None
      | Some (before, rest) \<Rightarrow>
          (case split_first rest of
             None \<Rightarrow> Some rest
           | Some (name, rest') \<Rightarrow> Some name))"

text \<open>The first row of a table that satisfies \<open>P\<close> (\<open>query.filter_by(...).first()\<close>),
  changed by \<open>f\<close>.\<close>

fun update_first :: "('a \<Rightarrow> bool) \<Rightarrow> ('a \<Rightarrow> 'a) \<Rightarrow> 'a list \<Rightarrow> 'a list" where
  "update_first P f [] = []"
| "update_first P f (x # xs) = (if P x then f x # xs else x # update_first P f xs)"

text \<open>
  \<open>mpesa_callback\<close>, payment/routes.py lines 111-164. \<open>reference\<close> is the query
  argument, \<open>result_code\<close> the \<open>ResultCode\<close> of the body (\<open>None\<close> when absent); the body
  \<open>{'success': ...}\<close> of the answer is written as text. The handler changes the payment
  and the membership and nothing else: it calls neither \<open>add_funds\<close> nor
  \<open>calculate_referral_commission\<close> and creates no \<open>ReferralCommission\<close>, and it does not
  look at the payment's status before it acts. When the user already has a membership,
  line 144 evaluates \<open>timedelta(days=365)\<close>; the module imports only \<open>datetime\<close> from
  \<open>datetime\<close>, so the name is unbound and the statement raises NameError before the
  commit. A new \<open>Membership\<close> gets its defaults: start now, end 365 days later, active.
\<close>

definition mpesa_callback :: "db \<Rightarrow> string option \<Rightarrow> int option \<Rightarrow> time \<Rightarrow> response \<times> db" where
  "mpesa_callback d reference result_code now =
     (case reference of
        None \<Rightarrow> (Resp 400 ''Missing reference'', d)
      | Some ref \<Rightarrow>
          if ref = [] then (Resp 400 ''Missing reference'', d)
          else
            (case find (\<lambda>p. p_reference p = ref) (payments d) of
               None \<Rightarrow> (Resp 404 ''Payment not found'', d)
             | Some payment \<Rightarrow>
                 if result_code = Some 0 then
                   (let d1 = d\<lparr>payments :=
                          update_first (\<lambda>p. p_reference p = ref)
                            (\<lambda>p. p\<lparr>p_status := ''completed'', p_completed_at := Some now\<rparr>)
                            (payments d)\<rparr>
                    in
                      (case tier_name_of (p_description payment) of
                         None \<Rightarrow> (Resp 200 ''success: True'', d1)
                       | Some tier_name \<Rightarrow>
                           if tier_name = [] then (Resp 200 ''success: True'', d1)
                           else
                             (case find (\<lambda>row. t_name (snd row) = tier_name) (tiers d) of
                                None \<Rightarrow> (Resp 200 ''success: True'', d1)
                              | Some tier_row \<Rightarrow>
                                  (case map_of (users d) (p_user_id payment) of
                                     None \<Rightarrow> (Raise (AttributeError ''membership''), d)
                                   | Some usr \<Rightarrow>
                                       (case u_membership usr of
                                          Some mem \<Rightarrow> (Raise (NameError ''timedelta''), d)
                                        | None \<Rightarrow>
                                            (Resp 200 ''success: True'',
                                             d1\<lparr>users :=
                                                 AList.update (p_user_id payment)
                                                   (usr\<lparr>u_membership :=
                                                      Some \<lparr>m_tier_id = fst tier_row,
                                                            start_date = now,
                                                            end_date = now + 365 * 86400,
                                                            m_is_active = True,
                                                            payment_id = p_reference payment\<rparr>\<rparr>)
                                                   (users d)\<rparr>))))))
                 else
                   (Resp 200 ''success: False'',
                    d\<lparr>payments :=
                        update_first (\<lambda>p. p_reference p = ref)
                          (\<lambda>p. p\<lparr>p_status := ''failed''\<rparr>) (payments d)\<rparr>)))"



text \<open>
  The requests that touch wallets, memberships or withdrawals, each with the time it is
  served at, and a run of them in sequence.
\<close>

datatype request =
    RequestWithdrawal uid int string string
  | ProcessWithdrawal nat "string option"
  | CompleteMission uid nat string
  | MpesaCallback "string option" "int option"

fun handle :: "(string \<Rightarrow> json option) \<Rightarrow> db \<Rightarrow> request \<times> time \<Rightarrow> response \<times> db" where
  "handle loads d (RequestWithdrawal u amount method account_info, now) =
     request_withdrawal d u amount method account_info"
| "handle loads d (ProcessWithdrawal wid status_field, now) =
     process_withdrawal d wid status_field now"
| "handle loads d (CompleteMission u mission_id pstr, now) =
     complete_mission loads d u mission_id pstr now"
| "handle loads d (MpesaCallback reference result_code, now) =
     mpesa_callback d reference result_code now"

fun run_requests :: "(string \<Rightarrow> json option) \<Rightarrow> db \<Rightarrow> (request \<times> time) list \<Rightarrow> db" where
  "run_requests loads d [] = d"
| "run_requests loads d (r # rs) = run_requests loads (snd (handle loads d r)) rs"

section \<open>Example databases\<close>




text \<open>
  An example parser table for the two proofs of the scenario and an \<open>ad\<close> mission of
  30 seconds.
\<close>

definition scenario_loads :: "string \<Rightarrow> json option" where
  \<open>scenario_loads s =
     (if s = ''{"duration": 25}'' then Some (JObject [(''duration'', JInt 25)])
      else if s = ''{"duration": 28}'' then Some (JObject [(''duration'', JInt 28)])
      else None)\<close>

definition ad_mission :: mission where
  "ad_mission = \<lparr>ms_title = ''Watch'', reward = 50, ms_type = ''ad'', duration = 30,
     ms_is_active = True\<rparr>"

text \<open>
  A small database for the examples: one user with a wallet of balance 500 and one
  withdrawal of 500 in the given status.
\<close>

definition ledger_db :: "string \<Rightarrow> db" where
  "ledger_db st =
     \<lparr>users = [(1, \<lparr>username = ''alice'', u_membership = None,
                 u_wallet = Some \<lparr>w_id = 1, balance = 500, total_earned = 1000,
                                  total_withdrawn = 0\<rparr>\<rparr>)],
      tiers = [], missions = [], completions = [], referrals = [], commissions = [],
      transactions = [],
      withdrawals = [\<lparr>wd_user_id = 1, wd_amount = 500, wd_method = ''mpesa'',
                      wd_status = st, wd_account_info = ''0712345678'',
                      wd_processed_at = None\<rparr>],
      payments = []\<rparr>"

section \<open>Wallet ledger\<close>

lemma apply_wallet_op_nonneg:
  "0 \<le> balance (fst l) \<Longrightarrow> 0 < op_amount x \<Longrightarrow> 0 \<le> balance (fst (apply_wallet_op l x))"
  by (cases l; cases x) (auto simp: add_funds_def deduct_funds_def)

lemma run_wallet_ops_nonneg:
  "0 \<le> balance (fst l) \<Longrightarrow> list_all (\<lambda>x. 0 < op_amount x) xs \<Longrightarrow>
     0 \<le> balance (fst (run_wallet_ops l xs))"
proof (induction xs arbitrary: l)
  case Nil
  then show ?case by simp
next
  case (Cons x xs)
  from Cons.prems have "0 \<le> balance (fst (apply_wallet_op l x))"
    by (simp add: apply_wallet_op_nonneg)
  with Cons show ?case by simp
qed

text \<open>
  C3. Starting from a non-negative balance, any finite sequence of credits and debits with
  positive amounts leaves the balance non-negative. A debit of more than the balance raises
  \<open>ValueError('Insufficient funds')\<close> and changes neither the wallet nor the log; a debit
  of at most the balance lowers the balance by exactly the amount, leaves both totals
  alone and appends exactly one \<open>'debit'\<close> row of that amount.
\<close>

theorem wallet_balance_never_negative:
  "(0 \<le> balance w \<and> list_all (\<lambda>x. 0 < op_amount x) ops \<longrightarrow>
      0 \<le> balance (fst (run_wallet_ops (w, txs) ops)))
   \<and> (balance w < a \<longrightarrow>
        deduct_funds w a d = Inl (ValueError ''Insufficient funds'')
        \<and> apply_wallet_op (w, txs) (Debit a d) = (w, txs))
   \<and> (a \<le> balance w \<longrightarrow>
        apply_wallet_op (w, txs) (Debit a d) =
          (w\<lparr>balance := balance w - a\<rparr>,
           txs @ [\<lparr>wt_wallet_id = w_id w, wt_amount = a, wt_type = ''debit'',
                   wt_description = d\<rparr>]))"
  using run_wallet_ops_nonneg [of "(w, txs)" ops]
  by (simp add: deduct_funds_def)

theorem wallet_balance_never_negative_witness:
  "0 \<le> balance \<lparr>w_id = 1, balance = 1000, total_earned = 1000, total_withdrawn = 0\<rparr>
   \<and> list_all (\<lambda>x. 0 < op_amount x) [Debit 1500 ''w'', Credit 200 ''c'', Debit 1200 ''w'']
   \<and> balance (fst (run_wallet_ops
        (\<lparr>w_id = 1, balance = 1000, total_earned = 1000, total_withdrawn = 0\<rparr>, [])
        [Debit 1500 ''w'', Credit 200 ''c'', Debit 1200 ''w''])) = 0
   \<and> apply_wallet_op
        (\<lparr>w_id = 1, balance = 1000, total_earned = 1000, total_withdrawn = 0\<rparr>, [])
        (Debit 1500 ''w'')
      = (\<lparr>w_id = 1, balance = 1000, total_earned = 1000, total_withdrawn = 0\<rparr>, [])
   \<and> apply_wallet_op
        (\<lparr>w_id = 1, balance = 1000, total_earned = 1000, total_withdrawn = 0\<rparr>, [])
        (Debit 400 ''w'')
      = (\<lparr>w_id = 1, balance = 600, total_earned = 1000, total_withdrawn = 0\<rparr>,
         [\<lparr>wt_wallet_id = 1, wt_amount = 400, wt_type = ''debit'', wt_description = ''w''\<rparr>])"
  using wallet_balance_never_negative
    [of "\<lparr>w_id = 1, balance = 1000, total_earned = 1000, total_withdrawn = 0\<rparr>"
        "[Debit 1500 ''w'', Credit 200 ''c'', Debit 1200 ''w'']" "[]" 1500 "''w''"]
    wallet_balance_never_negative
    [of "\<lparr>w_id = 1, balance = 1000, total_earned = 1000, total_withdrawn = 0\<rparr>"
        "[]" "[]" 400 "''w''"]
  by (simp add: add_funds_def deduct_funds_def)

section \<open>Withdrawal state machine\<close>

lemma wallet_of_update:
  "wallet_of (d\<lparr>users := AList.update u (usr\<lparr>u_wallet := Some w'\<rparr>) (users d)\<rparr>) u = Some w'"
  by (simp add: wallet_of_def update_conv')

lemma request_withdrawal_ok:
  assumes "wallet_of d u = Some w" "0 < amount" "amount \<le> balance w"
    "method \<in> set [''mpesa'', ''bank'', ''paypal'']"
  shows "\<exists>usr. map_of (users d) u = Some usr \<and> u_wallet usr = Some w \<and>
     request_withdrawal d u amount method acct =
       (Resp 201 ''Withdrawal request submitted successfully'',
        d\<lparr>users := AList.update u (usr\<lparr>u_wallet := Some (w\<lparr>balance := balance w - amount\<rparr>)\<rparr>) (users d),
          transactions := transactions d @
            [\<lparr>wt_wallet_id = w_id w, wt_amount = amount, wt_type = ''debit'',
              wt_description = ''Withdrawal request via '' @ method\<rparr>],
          withdrawals := withdrawals d @
            [\<lparr>wd_user_id = u, wd_amount = amount, wd_method = method,
              wd_status = ''pending'', wd_account_info = acct,
              wd_processed_at = None\<rparr>]\<rparr>)"
  using assms
  by (auto simp: wallet_of_def request_withdrawal_def deduct_funds_def split: option.splits)

lemma process_failed_pending:
  assumes "wid < length (withdrawals d)" "wd_status (withdrawals d ! wid) = ''pending''"
    "wallet_of d (wd_user_id (withdrawals d ! wid)) = Some w"
  shows "wallet_of (snd (process_withdrawal d wid (Some ''failed'') now)) (wd_user_id (withdrawals d ! wid))
       = Some (w\<lparr>balance := balance w + wd_amount (withdrawals d ! wid),
                  total_earned := total_earned w + wd_amount (withdrawals d ! wid)\<rparr>)"
   and "transactions (snd (process_withdrawal d wid (Some ''failed'') now))
       = transactions d @ [\<lparr>wt_wallet_id = w_id w, wt_amount = wd_amount (withdrawals d ! wid),
            wt_type = ''credit'', wt_description = ''Refund for failed withdrawal''\<rparr>]"
   and "withdrawals (snd (process_withdrawal d wid (Some ''failed'') now))
       = (withdrawals d)[wid := (withdrawals d ! wid)\<lparr>wd_processed_at := Some now, wd_status := ''failed''\<rparr>]"
   and "fst (process_withdrawal d wid (Some ''failed'') now) = Resp 200 ''Withdrawal updated successfully''"
  using assms
  by (auto simp: wallet_of_def process_withdrawal_def refund_wallet_def add_funds_def Let_def update_conv'
      split: option.splits)


lemma round_trip_state:
  assumes "wallet_of d u = Some w" "0 < amount" "amount \<le> balance w"
    "method \<in> set [''mpesa'', ''bank'', ''paypal'']"
  shows "\<exists>d1 d2.
     request_withdrawal d u amount method acct =
       (Resp 201 ''Withdrawal request submitted successfully'', d1)
     \<and> process_withdrawal d1 (length (withdrawals d)) (Some ''failed'') now =
       (Resp 200 ''Withdrawal updated successfully'', d2)
     \<and> wallet_of d2 u = Some (w\<lparr>total_earned := total_earned w + amount\<rparr>)
     \<and> transactions d2 = transactions d @
          [\<lparr>wt_wallet_id = w_id w, wt_amount = amount, wt_type = ''debit'',
            wt_description = ''Withdrawal request via '' @ method\<rparr>,
           \<lparr>wt_wallet_id = w_id w, wt_amount = amount, wt_type = ''credit'',
            wt_description = ''Refund for failed withdrawal''\<rparr>]
     \<and> withdrawals d2 = withdrawals d @
          [\<lparr>wd_user_id = u, wd_amount = amount, wd_method = method,
            wd_status = ''failed'', wd_account_info = acct,
            wd_processed_at = Some now\<rparr>]"
proof -
  from request_withdrawal_ok [OF assms, of acct] obtain usr d1 where
    usr: "map_of (users d) u = Some usr" "u_wallet usr = Some w" and
    req: "request_withdrawal d u amount method acct =
       (Resp 201 ''Withdrawal request submitted successfully'', d1)" and
    d1: "d1 = d\<lparr>users := AList.update u (usr\<lparr>u_wallet := Some (w\<lparr>balance := balance w - amount\<rparr>)\<rparr>) (users d),
          transactions := transactions d @
            [\<lparr>wt_wallet_id = w_id w, wt_amount = amount, wt_type = ''debit'',
              wt_description = ''Withdrawal request via '' @ method\<rparr>],
          withdrawals := withdrawals d @
            [\<lparr>wd_user_id = u, wd_amount = amount, wd_method = method,
              wd_status = ''pending'', wd_account_info = acct,
              wd_processed_at = None\<rparr>]\<rparr>"
    by blast
  let ?wid = "length (withdrawals d)"
  have len: "?wid < length (withdrawals d1)" and
    row: "withdrawals d1 ! ?wid = \<lparr>wd_user_id = u, wd_amount = amount, wd_method = method,
              wd_status = ''pending'', wd_account_info = acct, wd_processed_at = None\<rparr>"
    by (simp_all add: d1)
  have w1: "wallet_of d1 (wd_user_id (withdrawals d1 ! ?wid)) = Some (w\<lparr>balance := balance w - amount\<rparr>)"
    by (simp add: row) (simp add: d1 wallet_of_def update_conv')
  have st: "wd_status (withdrawals d1 ! ?wid) = ''pending''" by (simp add: row)
  note pf = process_failed_pending [OF len st w1, of now]
  obtain r d2 where p: "process_withdrawal d1 ?wid (Some ''failed'') now = (r, d2)"
    by (cases "process_withdrawal d1 ?wid (Some ''failed'') now")
  have "r = Resp 200 ''Withdrawal updated successfully''" using pf(4) p by simp
  moreover have "wallet_of d2 u = Some (w\<lparr>total_earned := total_earned w + amount\<rparr>)"
    using pf(1) p by (simp add: row)
  moreover have "transactions d2 = transactions d @
          [\<lparr>wt_wallet_id = w_id w, wt_amount = amount, wt_type = ''debit'',
            wt_description = ''Withdrawal request via '' @ method\<rparr>,
           \<lparr>wt_wallet_id = w_id w, wt_amount = amount, wt_type = ''credit'',
            wt_description = ''Refund for failed withdrawal''\<rparr>]"
    using pf(2) p by (simp add: row) (simp add: d1)
  moreover have "withdrawals d2 = withdrawals d @
          [\<lparr>wd_user_id = u, wd_amount = amount, wd_method = method,
            wd_status = ''failed'', wd_account_info = acct,
            wd_processed_at = Some now\<rparr>]"
    using pf(3) p by (simp add: row) (simp add: d1)
  ultimately show ?thesis using req p by blast
qed

text \<open>
  C7. For a user whose wallet holds at least the (positive) amount, a withdrawal request
  by a valid method followed by resolving that withdrawal as \<open>failed\<close> leaves the wallet
  with its balance from before the request and \<open>total_withdrawn\<close> unchanged; the
  transaction table has grown by exactly the debit of the request followed by one new
  credit \<open>Refund for failed withdrawal\<close> (the debit row is kept).
\<close>

theorem withdrawal_request_then_fail_round_trip:
  assumes "wallet_of d u = Some w" "0 < amount" "amount \<le> balance w"
    "method \<in> set [''mpesa'', ''bank'', ''paypal'']"
  shows "\<exists>d1 d2 w2.
     request_withdrawal d u amount method acct =
       (Resp 201 ''Withdrawal request submitted successfully'', d1)
     \<and> process_withdrawal d1 (length (withdrawals d)) (Some ''failed'') now =
       (Resp 200 ''Withdrawal updated successfully'', d2)
     \<and> wallet_of d2 u = Some w2
     \<and> balance w2 = balance w
     \<and> total_withdrawn w2 = total_withdrawn w
     \<and> transactions d2 = transactions d @
          [\<lparr>wt_wallet_id = w_id w, wt_amount = amount, wt_type = ''debit'',
            wt_description = ''Withdrawal request via '' @ method\<rparr>,
           \<lparr>wt_wallet_id = w_id w, wt_amount = amount, wt_type = ''credit'',
            wt_description = ''Refund for failed withdrawal''\<rparr>]"
proof -
  from round_trip_state [OF assms, of acct now] obtain d1 d2 where
    "request_withdrawal d u amount method acct =
       (Resp 201 ''Withdrawal request submitted successfully'', d1)"
    "process_withdrawal d1 (length (withdrawals d)) (Some ''failed'') now =
       (Resp 200 ''Withdrawal updated successfully'', d2)"
    "wallet_of d2 u = Some (w\<lparr>total_earned := total_earned w + amount\<rparr>)"
    "transactions d2 = transactions d @
          [\<lparr>wt_wallet_id = w_id w, wt_amount = amount, wt_type = ''debit'',
            wt_description = ''Withdrawal request via '' @ method\<rparr>,
           \<lparr>wt_wallet_id = w_id w, wt_amount = amount, wt_type = ''credit'',
            wt_description = ''Refund for failed withdrawal''\<rparr>]"
    by blast
  then show ?thesis by force
qed


theorem withdrawal_request_then_fail_round_trip_witness:
  "wallet_of (ledger_db ''completed'') 1 =
     Some \<lparr>w_id = 1, balance = 500, total_earned = 1000, total_withdrawn = 0\<rparr>
   \<and> (\<exists>d1 d2 w2.
     request_withdrawal (ledger_db ''completed'') 1 200 ''bank'' ''acct'' =
       (Resp 201 ''Withdrawal request submitted successfully'', d1)
     \<and> process_withdrawal d1 1 (Some ''failed'') 77 =
       (Resp 200 ''Withdrawal updated successfully'', d2)
     \<and> wallet_of d2 1 = Some w2
     \<and> balance w2 = 500
     \<and> total_withdrawn w2 = 0
     \<and> transactions d2 =
          [\<lparr>wt_wallet_id = 1, wt_amount = 200, wt_type = ''debit'',
            wt_description = ''Withdrawal request via bank''\<rparr>,
           \<lparr>wt_wallet_id = 1, wt_amount = 200, wt_type = ''credit'',
            wt_description = ''Refund for failed withdrawal''\<rparr>])"
proof -
  have w: "wallet_of (ledger_db ''completed'') 1 =
     Some \<lparr>w_id = 1, balance = 500, total_earned = 1000, total_withdrawn = 0\<rparr>"
    by (simp add: wallet_of_def ledger_db_def)
  have len: "length (withdrawals (ledger_db ''completed'')) = 1"
    and tx: "transactions (ledger_db ''completed'') = []"
    by (simp_all add: ledger_db_def)
  from withdrawal_request_then_fail_round_trip
    [OF w, of 200 "''bank''" "''acct''" 77]
  show ?thesis unfolding len tx using w by simp
qed

text \<open>
  C5 (as the code has it). On a withdrawal whose status is already \<open>completed\<close> or
  \<open>failed\<close>, a further call with one of the three valid statuses is accepted and
  overwrites the status with the new value; \<open>processed_at\<close>, every user and wallet and the
  transaction table are left as they were (that call pays no refund). A call with no
  status or an invalid one changes nothing.
\<close>

theorem process_withdrawal_on_terminal:
  assumes "wid < length (withdrawals d)"
    and "wd_status (withdrawals d ! wid) \<in> set [''completed'', ''failed'']"
  shows "process_withdrawal d wid status_field now =
     (case status_field of
        None \<Rightarrow> (Resp 200 ''Withdrawal updated successfully'', d)
      | Some s \<Rightarrow>
          if s \<in> set [''pending'', ''completed'', ''failed''] then
            (Resp 200 ''Withdrawal updated successfully'',
             d\<lparr>withdrawals := (withdrawals d)[wid := (withdrawals d ! wid)\<lparr>wd_status := s\<rparr>]\<rparr>)
          else (Resp 400 ''Invalid status'', d))
     \<and> users (snd (process_withdrawal d wid status_field now)) = users d
     \<and> transactions (snd (process_withdrawal d wid status_field now)) = transactions d"
  using assms
  by (auto simp: process_withdrawal_def Let_def split: option.splits)

theorem process_withdrawal_on_terminal_witness:
  "process_withdrawal (ledger_db ''completed'') 0 (Some ''pending'') 10 =
     (Resp 200 ''Withdrawal updated successfully'', ledger_db ''pending'')
   \<and> users (snd (process_withdrawal (ledger_db ''completed'') 0 (Some ''pending'') 10)) =
       users (ledger_db ''completed'')"
proof -
  have a: "0 < length (withdrawals (ledger_db ''completed''))"
    and b: "wd_status (withdrawals (ledger_db ''completed'') ! 0) \<in> set [''completed'', ''failed'']"
    by (simp_all add: ledger_db_def)
  from process_withdrawal_on_terminal [OF a b, of "Some ''pending''" 10]
  show ?thesis by (simp add: ledger_db_def)
qed

theorem process_withdrawal_terminal_counterexample:
  "wd_status (withdrawals (ledger_db ''completed'') ! 0) = ''completed''
   \<and> wd_status (withdrawals (snd (process_withdrawal (ledger_db ''completed'') 0
        (Some ''failed'') 10)) ! 0) = ''failed''
   \<and> map_option balance (wallet_of (ledger_db ''failed'') 1) = Some 500
   \<and> map_option balance (wallet_of
        (snd (process_withdrawal
           (snd (process_withdrawal (ledger_db ''failed'') 0 (Some ''pending'') 10))
           0 (Some ''failed'') 20)) 1) = Some 1000"
  by (simp add: process_withdrawal_def ledger_db_def Let_def refund_wallet_def add_funds_def
      wallet_of_def)

text \<open>
  C10. Resolving a pending withdrawal as \<open>failed\<close> refunds through \<open>add_funds\<close>: the
  owner's balance and \<open>total_earned\<close> both grow by the withdrawal's amount. Hence after
  a request followed by that resolution the wallet is the one from before the request
  except that \<open>total_earned\<close> is higher by the amount.
\<close>

theorem failed_withdrawal_refund_counts_as_earned:
  "(wid < length (withdrawals d) \<and> wd_status (withdrawals d ! wid) = ''pending''
      \<and> wallet_of d (wd_user_id (withdrawals d ! wid)) = Some w \<longrightarrow>
    wallet_of (snd (process_withdrawal d wid (Some ''failed'') now))
        (wd_user_id (withdrawals d ! wid))
      = Some (w\<lparr>balance := balance w + wd_amount (withdrawals d ! wid),
                 total_earned := total_earned w + wd_amount (withdrawals d ! wid)\<rparr>))
   \<and> (wallet_of d u = Some w \<and> 0 < amount \<and> amount \<le> balance w
        \<and> method \<in> set [''mpesa'', ''bank'', ''paypal''] \<longrightarrow>
      wallet_of (snd (process_withdrawal (snd (request_withdrawal d u amount method acct))
          (length (withdrawals d)) (Some ''failed'') now)) u
        = Some (w\<lparr>total_earned := total_earned w + amount\<rparr>))"
proof (intro conjI impI)
  assume "wid < length (withdrawals d) \<and> wd_status (withdrawals d ! wid) = ''pending''
      \<and> wallet_of d (wd_user_id (withdrawals d ! wid)) = Some w"
  then show "wallet_of (snd (process_withdrawal d wid (Some ''failed'') now))
        (wd_user_id (withdrawals d ! wid))
      = Some (w\<lparr>balance := balance w + wd_amount (withdrawals d ! wid),
                 total_earned := total_earned w + wd_amount (withdrawals d ! wid)\<rparr>)"
    using process_failed_pending(1) by blast
next
  assume a: "wallet_of d u = Some w \<and> 0 < amount \<and> amount \<le> balance w
        \<and> method \<in> set [''mpesa'', ''bank'', ''paypal'']"
  from a have h: "wallet_of d u = Some w" "0 < amount" "amount \<le> balance w"
    "method \<in> set [''mpesa'', ''bank'', ''paypal'']" by blast+
  from round_trip_state [OF h, of acct now]
  show "wallet_of (snd (process_withdrawal (snd (request_withdrawal d u amount method acct))
          (length (withdrawals d)) (Some ''failed'') now)) u
        = Some (w\<lparr>total_earned := total_earned w + amount\<rparr>)"
    by auto
qed

theorem failed_withdrawal_refund_counts_as_earned_witness:
  "wallet_of (snd (process_withdrawal (ledger_db ''pending'') 0 (Some ''failed'') 10)) 1
      = Some \<lparr>w_id = 1, balance = 1000, total_earned = 1500, total_withdrawn = 0\<rparr>
   \<and> wallet_of (snd (process_withdrawal
          (snd (request_withdrawal (ledger_db ''completed'') 1 500 ''paypal'' ''a@b.co''))
          1 (Some ''failed'') 10)) 1
      = Some \<lparr>w_id = 1, balance = 500, total_earned = 1500, total_withdrawn = 0\<rparr>"
  using failed_withdrawal_refund_counts_as_earned
    [of 0 "ledger_db ''pending''"
        "\<lparr>w_id = 1, balance = 500, total_earned = 1000, total_withdrawn = 0\<rparr>" 10
        1 500 "''paypal''" "''a@b.co''"]
    failed_withdrawal_refund_counts_as_earned
    [of 0 "ledger_db ''completed''"
        "\<lparr>w_id = 1, balance = 500, total_earned = 1000, total_withdrawn = 0\<rparr>" 10
        1 500 "''paypal''" "''a@b.co''"]
  by (simp add: ledger_db_def wallet_of_def)


section \<open>Proof validation\<close>

declare bit_length.simps [simp del]

lemma bit_length_bounds: "0 < n \<Longrightarrow> 2 ^ (bit_length n - 1) \<le> n \<and> n < 2 ^ bit_length n"
proof (induction n rule: bit_length.induct)
  case (1 n)
  show ?case
  proof (cases "n div 2 = 0")
    case True
    with 1 have "n = 1" by (simp add: div_eq_0_iff) 
    then show ?thesis by (simp add: bit_length.simps [of "Suc 0"] bit_length.simps [of 0])
  next
    case False
    with 1 have ih: "2 ^ (bit_length (n div 2) - 1) \<le> n div 2" "n div 2 < 2 ^ bit_length (n div 2)"
      by auto
    have bl: "bit_length n = Suc (bit_length (n div 2))"
      using 1(2) by (simp add: bit_length.simps [of n])
    have pos: "0 < bit_length (n div 2)"
      using False by (simp add: bit_length.simps [of "n div 2"])
    then obtain k where k: "bit_length (n div 2) = Suc k" by (cases "bit_length (n div 2)") auto
    from ih have "2 * 2 ^ k \<le> n" "n < 2 * 2 ^ Suc k" unfolding k by simp_all
    then show ?thesis unfolding bl k by simp
  qed
qed

lemma round53_facts:
  assumes "2 ^ 53 \<le> n"
  shows "\<exists>h k. 0 < h \<and> h * 2 ^ 53 \<le> n \<and> n < 2 * h * 2 ^ 53
           \<and> round53 n = k * (2 * h) \<and> round53 n \<le> n + h \<and> n \<le> round53 n + h
           \<and> (\<exists>j. h = 2 ^ j)"
proof -
  have npos: "0 < n" using assms by (metis less_le_trans zero_less_numeral zero_less_power)
  let ?b = "bit_length n"
  from bit_length_bounds [OF npos] have b: "2 ^ (?b - 1) \<le> n" "n < 2 ^ ?b" by simp_all
  have "(2::nat) ^ 53 < 2 ^ ?b" using assms b(2) by linarith
  then have b54: "53 < ?b" by (rule power_less_imp_less_exp [rotated]) simp
  define s where "s = ?b - 53"
  define h :: nat where "h = 2 ^ (s - 1)"
  have s1: "1 \<le> s" using b54 by (simp add: s_def)
  have two_s: "(2::nat) ^ s = 2 * h" using s1 unfolding h_def
    by (metis One_nat_def Suc_pred less_eq_Suc_le power_Suc)
  have bm1: "?b - 1 = (s - 1) + 53" using b54 s1 by (simp add: s_def)
  have bs: "?b = s + 53" using b54 by (simp add: s_def)
  have lo: "h * 2 ^ 53 \<le> n" using b(1) unfolding bm1 h_def by (simp add: power_add)
  have hi: "n < 2 * h * 2 ^ 53" using b(2) unfolding bs two_s [symmetric] by (simp add: power_add)
  define q where "q = n div 2 ^ s"
  define r where "r = n mod 2 ^ s"
  have n_eq: "n = q * (2 * h) + r" unfolding q_def r_def two_s [symmetric] by (metis div_mult_mod_eq)
  have r_lt: "r < 2 * h" unfolding r_def two_s [symmetric] by simp
  have rd0: "round53 n = (if h < r \<or> (r = h \<and> odd q) then q + 1 else q) * 2 ^ s"
    using assms by (simp add: round53_def Let_def s_def q_def r_def h_def)
  have rd: "round53 n = (if h < r \<or> (r = h \<and> odd q) then q + 1 else q) * (2 * h)"
    using rd0 unfolding two_s .
  have "0 < h" by (simp add: h_def)
  moreover have "round53 n \<le> n + h \<and> n \<le> round53 n + h"
    unfolding rd using n_eq r_lt by (auto simp: algebra_simps)
  moreover have "\<exists>k. round53 n = k * (2 * h)" unfolding rd by blast
  moreover have "\<exists>j. h = 2 ^ j" unfolding h_def by blast
  ultimately show ?thesis using lo hi by blast
qed


lemma round53_product:
  assumes "0 < d" "d < 2 ^ 49"
  shows "(int (round53 (d * 8106479329266893)) \<le> v * 2 ^ 53) = (9 * int d \<le> 10 * v)"
proof (cases "d * 8106479329266893 < 2 ^ 53")
  case True
  then have "d = 1" using assms(1) by simp
  then show ?thesis by (auto simp: round53_def)
next
  case False
  then have big: "2 ^ 53 \<le> d * 8106479329266893" by simp
  from round53_facts [OF big] obtain h k j where
    hpos: "0 < h" and H1: "h * 2 ^ 53 \<le> d * 8106479329266893"
    and H2: "d * 8106479329266893 < 2 * h * 2 ^ 53"
    and H3: "round53 (d * 8106479329266893) = k * (2 * h)"
    and H4: "round53 (d * 8106479329266893) \<le> d * 8106479329266893 + h"
    and H5: "d * 8106479329266893 \<le> round53 (d * 8106479329266893) + h"
    and hj: "h = 2 ^ j"
    by blast
  define R where "R = int (round53 (d * 8106479329266893))"
  have I1: "int h * 9007199254740992 \<le> int d * 8106479329266893" using H1 by (simp; linarith?)
  have I2: "int d * 8106479329266893 < 2 * int h * 9007199254740992" using H2 by (simp; linarith?)
  have I4: "R \<le> int d * 8106479329266893 + int h" using H4 unfolding R_def by linarith
  have I5: "int d * 8106479329266893 \<le> R + int h" using H5 unfolding R_def by linarith
  have I3: "R = int k * (2 * int h)" using H3 unfolding R_def by simp
  have dlt: "int d < 562949953421312" using assms(2) by simp
  have hd: "int h \<le> int d" using I1 by linarith
  have ihpos: "0 < int h" using hpos by simp
  show ?thesis
  proof (cases "9 * int d + 1 \<le> 10 * v")
    case True
    then have "R \<le> v * 9007199254740992" using I4 hd dlt by linarith
    with True show ?thesis unfolding R_def by simp
  next
    case nA: False
    show ?thesis
    proof (cases "10 * v \<le> 9 * int d - 1")
      case True
      then have "v * 9007199254740992 < R" using I5 hd dlt by linarith
      with True show ?thesis unfolding R_def by simp
    next
      case False
      with nA have eq: "10 * v = 9 * int d" by linarith
      have "h < 2 ^ 49" using hd dlt by (simp; linarith?)
      then have "j < 49" unfolding hj by (rule power_less_imp_less_exp [rotated]) simp
      then have "(2::nat) ^ 53 = 2 ^ (52 - j) * (2 * 2 ^ j)"
        by (simp add: power_add [symmetric])
      then have "int (2 ^ 53) = int (2 ^ (52 - j) * (2 * h))"
        unfolding hj by (rule arg_cong)
      then have P: "(9007199254740992::int) = 2 ^ (52 - j) * (2 * int h)"
        by simp
      define m where "m = v * 2 ^ (52 - j)"
      have vP: "v * 9007199254740992 = m * (2 * int h)" unfolding m_def using P by simp
      have "R \<le> v * 9007199254740992"
      proof (rule ccontr)
        assume "\<not> R \<le> v * 9007199254740992"
        then have "m * (2 * int h) < int k * (2 * int h)" unfolding vP I3 by simp
        then have "m < int k" using ihpos by simp
        then have "(m + 1) * (2 * int h) \<le> int k * (2 * int h)"
          using ihpos by (simp add: mult_right_mono)
        then have "v * 9007199254740992 + 2 * int h \<le> R"
          unfolding vP I3 by (simp add: algebra_simps)
        then show False using I4 I2 eq ihpos by linarith
      qed
      with eq show ?thesis unfolding R_def by simp
    qed
  qed
qed

lemma ad_threshold_int:
  assumes "0 \<le> D" "D < 2 ^ 49"
  shows "(ad_threshold D \<le> of_int v) = (9 * D \<le> 10 * v)"
proof (cases "D = 0")
  case True
  then show ?thesis by (simp add: ad_threshold_def round53_def)
next
  case False
  define d where "d = nat D"
  have d: "0 < d" "d < 2 ^ 49" "int d = D" using assms False by (simp_all add: d_def)
  have r: "round53 d = d" using d(2) by (simp add: round53_def)
  have th: "ad_threshold D = of_int (int (round53 (d * 8106479329266893))) / 2 ^ 53"
    using assms False r by (simp add: ad_threshold_def d_def)
  have "(ad_threshold D \<le> of_int v) =
      ((of_int (int (round53 (d * 8106479329266893))) :: rat) \<le> of_int v * 2 ^ 53)"
    unfolding th by (rule pos_divide_le_eq) simp
  also have "\<dots> = (int (round53 (d * 8106479329266893)) \<le> v * 2 ^ 53)"
    by (metis (no_types, opaque_lifting) of_int_le_iff of_int_mult of_int_numeral of_int_power)
  also have "\<dots> = (9 * D \<le> 10 * v)"
    using round53_product [OF d(1) d(2), of v] d(3) by simp
  finally show ?thesis .
qed


text \<open>
  C9. For a mission of type \<open>ad\<close> with required duration \<open>D\<close> and a non-empty proof that
  parses to an object: when the parsed \<open>duration\<close> is an integer \<open>v\<close> (and
  \<open>0 \<le> D < 2 ^ 49\<close>), the proof is accepted exactly when \<open>v \<ge> 0.9 * D\<close>, that is
  \<open>9 * D \<le> 10 * v\<close>; when it is a finite float \<open>q\<close>, it is accepted exactly when \<open>q\<close>
  is at least the double product \<open>D * 0.9\<close>. With \<open>D = 30\<close> this rejects 25 and accepts 28.
\<close>

theorem ad_proof_accepted_iff_ninety_percent:
  assumes "ms_type m = ''ad''" and "pstr \<noteq> []" and "loads pstr = Some (JObject kvs)"
  shows "(map_of kvs ''duration'' = Some (JInt v) \<and> 0 \<le> duration m \<and> duration m < 2 ^ 49 \<longrightarrow>
           validate_mission_completion loads m pstr = (9 * duration m \<le> 10 * v))
       \<and> (map_of kvs ''duration'' = Some (JFloat (Finite q)) \<longrightarrow>
           validate_mission_completion loads m pstr = (ad_threshold (duration m) \<le> q))"
  using assms ad_threshold_int [of "duration m" v]
  by (simp add: validate_mission_completion_def)

theorem ad_proof_accepted_iff_ninety_percent_witness:
  \<open>validate_mission_completion scenario_loads ad_mission ''{"duration": 25}'' = False
   \<and> validate_mission_completion scenario_loads ad_mission ''{"duration": 28}'' = True\<close>
proof -
  have t: "ms_type ad_mission = ''ad''" by (simp add: ad_mission_def)
  have l25: \<open>scenario_loads ''{"duration": 25}'' = Some (JObject [(''duration'', JInt 25)])\<close>
    and l28: \<open>scenario_loads ''{"duration": 28}'' = Some (JObject [(''duration'', JInt 28)])\<close>
    by (simp_all add: scenario_loads_def)
  have n25: \<open>''{"duration": 25}'' \<noteq> []\<close> and n28: \<open>''{"duration": 28}'' \<noteq> []\<close>
    by simp_all
  from ad_proof_accepted_iff_ninety_percent
         [where loads = scenario_loads and m = ad_mission and v = 25
            and pstr = \<open>''{"duration": 25}''\<close>, OF t n25 l25]
       ad_proof_accepted_iff_ninety_percent
         [where loads = scenario_loads and m = ad_mission and v = 28
            and pstr = \<open>''{"duration": 28}''\<close>, OF t n28 l28]
  show ?thesis by (simp add: ad_mission_def)
qed


section \<open>Daily mission quota\<close>

lemma completed_today_append:
  "completed_today (d\<lparr>completions := completions d @ [c]\<rparr>) u day =
     completed_today d u day + (if mc_user_id c = u \<and> date_of (mc_completed_at c) = day then 1 else 0)"
  by (simp add: completed_today_def)





lemma already_completed_append:
  "already_completed (d\<lparr>completions := completions d @ [c]\<rparr>) u m day =
     (already_completed d u m day \<or>
      (mc_user_id c = u \<and> mc_mission_id c = m \<and> date_of (mc_completed_at c) = day))"
  by (auto simp: already_completed_def)

lemma completed_today_cong:
  "completions d' = completions d \<Longrightarrow> completed_today d' u day = completed_today d u day"
  by (simp add: completed_today_def)

lemma already_completed_cong:
  "completions d' = completions d \<Longrightarrow> already_completed d' u m day = already_completed d u m day"
  by (simp add: already_completed_def)








section \<open>Referral edges\<close>











section \<open>Payment completion and commissions\<close>

lemma mpesa_callback_frame:
  "wallet_of (snd (mpesa_callback d reference result_code now)) u = wallet_of d u
   \<and> transactions (snd (mpesa_callback d reference result_code now)) = transactions d
   \<and> commissions (snd (mpesa_callback d reference result_code now)) = commissions d
   \<and> referrals (snd (mpesa_callback d reference result_code now)) = referrals d"
  by (auto simp: mpesa_callback_def Let_def wallet_of_def update_conv'
      split: option.splits)













section \<open>The total withdrawn\<close>

lemma tw_update:
  "map_of (users d) u = Some usr \<Longrightarrow> u_wallet usr = Some w \<Longrightarrow>
     total_withdrawn w' = total_withdrawn w \<Longrightarrow>
     map_option total_withdrawn
       (wallet_of (d\<lparr>users := AList.update u (usr\<lparr>u_wallet := Some w'\<rparr>) (users d)\<rparr>) v)
     = map_option total_withdrawn (wallet_of d v)"
  by (simp add: wallet_of_def update_conv')

lemma request_withdrawal_tw:
  "map_option total_withdrawn (wallet_of (snd (request_withdrawal d u a m acct)) v)
     = map_option total_withdrawn (wallet_of d v)"
  by (auto simp: request_withdrawal_def deduct_funds_def wallet_of_def update_conv'
      split: option.splits)

lemma refund_wallet_tw:
  "map_option total_withdrawn (wallet_of (refund_wallet d u a) v)
     = map_option total_withdrawn (wallet_of d v)"
  by (auto simp: refund_wallet_def add_funds_def wallet_of_def update_conv'
      split: option.splits)

lemma wallet_of_withdrawals_upd [simp]:
  "wallet_of (d\<lparr>withdrawals := ws\<rparr>) v = wallet_of d v"
  by (simp add: wallet_of_def)

lemma process_withdrawal_tw:
  "map_option total_withdrawn (wallet_of (snd (process_withdrawal d wid st now)) v)
     = map_option total_withdrawn (wallet_of d v)"
  by (auto simp: process_withdrawal_def Let_def refund_wallet_tw split: option.splits)

lemma complete_mission_tw:
  "map_option total_withdrawn (wallet_of (snd (complete_mission loads d u mid pstr now)) v)
     = map_option total_withdrawn (wallet_of d v)"
  by (auto simp: complete_mission_def add_funds_def wallet_of_def update_conv'
      split: option.splits)

lemma handle_tw:
  "map_option total_withdrawn (wallet_of (snd (handle loads d r)) v)
     = map_option total_withdrawn (wallet_of d v)"
proof (cases r)
  case (Pair req now)
  then show ?thesis
    by (cases req)
       (simp_all add: request_withdrawal_tw process_withdrawal_tw complete_mission_tw
          mpesa_callback_frame)
qed

lemma run_requests_tw:
  "map_option total_withdrawn (wallet_of (run_requests loads d rs) v)
     = map_option total_withdrawn (wallet_of d v)"
  by (induction rs arbitrary: d) (simp_all add: handle_tw)

text \<open>
  C6 (as the code has it). Resolving a pending withdrawal as \<open>completed\<close> sets its status
  and \<open>processed_at\<close> and changes nothing else; \<open>add_funds\<close> and \<open>deduct_funds\<close> leave
  \<open>total_withdrawn\<close> alone, and after any run of withdrawal requests, withdrawal
  resolutions, mission completions and payment results every wallet has the
  \<open>total_withdrawn\<close> it had before.
\<close>

theorem total_withdrawn_never_changes:
  "(wid < length (withdrawals d) \<and> wd_status (withdrawals d ! wid) = ''pending'' \<longrightarrow>
      process_withdrawal d wid (Some ''completed'') now =
        (Resp 200 ''Withdrawal updated successfully'',
         d\<lparr>withdrawals := (withdrawals d)[wid :=
              (withdrawals d ! wid)\<lparr>wd_processed_at := Some now, wd_status := ''completed''\<rparr>]\<rparr>))
   \<and> total_withdrawn (fst (add_funds w a s)) = total_withdrawn w
   \<and> (a \<le> balance w \<longrightarrow>
        map_sum id (\<lambda>r. total_withdrawn (fst r)) (deduct_funds w a s) = Inr (total_withdrawn w))
   \<and> map_option total_withdrawn (wallet_of (run_requests loads d rs) v)
       = map_option total_withdrawn (wallet_of d v)"
  by (simp add: run_requests_tw add_funds_def deduct_funds_def process_withdrawal_def Let_def)

theorem total_withdrawn_never_changes_witness:
  "process_withdrawal (ledger_db ''pending'') 0 (Some ''completed'') 10 =
        (Resp 200 ''Withdrawal updated successfully'',
         (ledger_db ''pending'')\<lparr>withdrawals :=
            [\<lparr>wd_user_id = 1, wd_amount = 500, wd_method = ''mpesa'',
              wd_status = ''completed'', wd_account_info = ''0712345678'',
              wd_processed_at = Some 10\<rparr>]\<rparr>)
   \<and> map_option total_withdrawn (wallet_of (run_requests (\<lambda>s. None) (ledger_db ''pending'')
        [(RequestWithdrawal 1 100 ''bank'' ''acct'', 5),
         (ProcessWithdrawal 0 (Some ''completed''), 10),
         (ProcessWithdrawal 1 (Some ''failed''), 20)]) 1) = Some 0"
proof -
  have h: "0 < length (withdrawals (ledger_db ''pending''))
      \<and> wd_status (withdrawals (ledger_db ''pending'') ! 0) = ''pending''"
    by (simp add: ledger_db_def)
  have w: "wallet_of (ledger_db ''pending'') 1 =
     Some \<lparr>w_id = 1, balance = 500, total_earned = 1000, total_withdrawn = 0\<rparr>"
    by (simp add: wallet_of_def ledger_db_def)
  have r: "(withdrawals (ledger_db ''pending''))[0 :=
              (withdrawals (ledger_db ''pending'') ! 0)\<lparr>wd_processed_at := Some 10,
                 wd_status := ''completed''\<rparr>] =
            [\<lparr>wd_user_id = 1, wd_amount = 500, wd_method = ''mpesa'',
              wd_status = ''completed'', wd_account_info = ''0712345678'',
              wd_processed_at = Some 10\<rparr>]"
    by (simp add: ledger_db_def)
  from total_withdrawn_never_changes
    [of 0 "ledger_db ''pending''" 10 _ _ _ "\<lambda>s. None"
        "[(RequestWithdrawal 1 100 ''bank'' ''acct'', 5),
         (ProcessWithdrawal 0 (Some ''completed''), 10),
         (ProcessWithdrawal 1 (Some ''failed''), 20)]" 1] h
  show ?thesis unfolding r w by (simp del: run_requests.simps)
qed

theorem total_withdrawn_counterexample:
  "wd_amount (withdrawals (ledger_db ''pending'') ! 0) = 500
   \<and> map_option total_withdrawn (wallet_of (ledger_db ''pending'') 1) = Some 0
   \<and> fst (process_withdrawal (ledger_db ''pending'') 0 (Some ''completed'') 10) =
       Resp 200 ''Withdrawal updated successfully''
   \<and> wd_status (withdrawals (snd (process_withdrawal (ledger_db ''pending'') 0
        (Some ''completed'') 10)) ! 0) = ''completed''
   \<and> map_option total_withdrawn (wallet_of (snd (process_withdrawal (ledger_db ''pending'') 0
        (Some ''completed'') 10)) 1) = Some 0"
  by (simp add: process_withdrawal_def ledger_db_def Let_def wallet_of_def)


end
